theory Spec2Isabelle
  imports Main
begin

section \<open>Values exchanged with the callbacks\<close>

text \<open>
  Every function of \<^verbatim>\<open>lib.js\<close> is written in Node's callback style: it returns
  nothing and reports through \<^verbatim>\<open>done(err, result)\<close>. The model returns what
  happened to that callback. A JavaScript exception that leaves a callback of the
  event loop is never seen by \<^verbatim>\<open>done\<close>; it is a result of its own.
\<close>

datatype error =
    TypeError string
      \<comment> \<open>reading the named property of \<^verbatim>\<open>undefined\<close>\<close>
  | Failure string
      \<comment> \<open>an error object handed over by a collaborator (glob, fs, S3)\<close>

datatype 'a outcome =
    Done_ok 'a
      \<comment> \<open>\<^verbatim>\<open>done(null, v)\<close>, \<^verbatim>\<open>done(null)\<close> or \<^verbatim>\<open>done()\<close>\<close>
  | Done_err error
      \<comment> \<open>\<^verbatim>\<open>done(err)\<close>\<close>
  | Uncaught error
      \<comment> \<open>an exception was thrown; \<^verbatim>\<open>done\<close> is not invoked\<close>
  | No_callback
      \<comment> \<open>the work ended and \<^verbatim>\<open>done\<close> was not invoked\<close>

datatype json =
    JString string
  | JArray "json list"
  | JObject "(string \<times> json) list"

fun property :: "string \<Rightarrow> json \<Rightarrow> json option" where
  "property k (JObject kvs) = map_of kvs k"
| "property k (JString s) = None"
| "property k (JArray vs) = None"

fun keys :: "json \<Rightarrow> string list" where
  "keys (JObject kvs) = map fst kvs"
| "keys (JString s) = []"
| "keys (JArray vs) = []"

section \<open>The collaborators\<close>

text \<open>
  The modules bound by the \<^verbatim>\<open>require\<close> lines and the S3 client of the AWS SDK
  are not part of the repository. Each is a record of the functions that
  \<^verbatim>\<open>lib.js\<close> calls on it, so that every statement below holds for every
  implementation of them, except where a concrete one is named.
\<close>

record stats =
  isFile :: bool

datatype read_stream = ReadStream string

record fs_module =
  lstat :: "string \<Rightarrow> error + stats"
    \<comment> \<open>\<open>Inl err\<close>: the callback gets \<^verbatim>\<open>(err, undefined)\<close>\<close>

definition createReadStream :: "string \<Rightarrow> read_stream" where
  "createReadStream p = ReadStream p"

record path_object =
  dir :: string
  base :: string

record path_module =
  format :: "path_object \<Rightarrow> string"
  relative :: "string \<Rightarrow> string \<Rightarrow> string"

record mime_module =
  lookup :: "string \<Rightarrow> string"

record modules =
  fs :: fs_module
  path :: path_module
  glob :: "string \<Rightarrow> error + string list"
  mime :: mime_module
  JSON_stringify :: "json \<Rightarrow> string"

record upload_params =
  Bucket :: string
  Key :: string
  ACL :: string
  ContentType :: string
  Body :: read_stream

record policy_params =
  policy_Bucket :: string
  Policy :: string

record s3_client =
  upload :: "upload_params \<Rightarrow> error option"
    \<comment> \<open>\<open>Some err\<close>: the callback gets \<^verbatim>\<open>err\<close>\<close>
  putBucketPolicy :: "policy_params \<Rightarrow> error option"

datatype remote_call =
    Upload upload_params
  | PutBucketPolicy policy_params

type_synonym 'a effect = "remote_call list \<times> 'a outcome"

subsection \<open>Node's path module on two hosts\<close>

text \<open>
  \<^verbatim>\<open>path.format({dir, base})\<close> is \<^verbatim>\<open>dir + sep + base\<close> (only
  \<^verbatim>\<open>base\<close> when \<^verbatim>\<open>dir\<close> is empty), and \<^verbatim>\<open>path.relative(from, to)\<close>
  on normalised absolute paths of one drive drops the components that both paths start
  with, climbs with \<^verbatim>\<open>..\<close> out of what is left of \<^verbatim>\<open>from\<close> and joins
  with the host's separator. POSIX splits at \<^verbatim>\<open>/\<close> and joins with it; Windows
  splits at both slashes and joins with the backslash.
\<close>

definition backslash :: char where
  "backslash = CHR 0x5C"

fun components :: "(char \<Rightarrow> bool) \<Rightarrow> string \<Rightarrow> string \<Rightarrow> string list" where
  "components is_sep acc [] = (if acc = [] then [] else [acc])"
| "components is_sep acc (c # cs) =
     (if is_sep c then (if acc = [] then [] else [acc]) @ components is_sep [] cs
      else components is_sep (acc @ [c]) cs)"

fun strip_common :: "string list \<Rightarrow> string list \<Rightarrow> string list \<times> string list" where
  "strip_common (x # xs) (y # ys) =
     (if x = y then strip_common xs ys else (x # xs, y # ys))"
| "strip_common xs ys = (xs, ys)"

fun join :: "char \<Rightarrow> string list \<Rightarrow> string" where
  "join s [] = []"
| "join s [x] = x"
| "join s (x # y # ys) = x @ s # join s (y # ys)"

definition relative_parts :: "(char \<Rightarrow> bool) \<Rightarrow> string \<Rightarrow> string \<Rightarrow> string list" where
  "relative_parts is_sep from to =
     (case strip_common (components is_sep [] from) (components is_sep [] to) of
        (left, rest) \<Rightarrow> replicate (length left) ''..'' @ rest)"

definition format_with :: "char \<Rightarrow> path_object \<Rightarrow> string" where
  "format_with s obj = (if dir obj = [] then base obj else dir obj @ s # base obj)"

definition posix :: path_module where
  "posix = \<lparr> format = format_with CHR ''/'',
             relative = (\<lambda>from to. join CHR ''/'' (relative_parts (\<lambda>c. c = CHR ''/'') from to)) \<rparr>"

definition win32 :: path_module where
  "win32 = \<lparr> format = format_with backslash,
             relative = (\<lambda>from to.
               join backslash (relative_parts (\<lambda>c. c = CHR ''/'' \<or> c = backslash) from to)) \<rparr>"

subsection \<open>The async library, one item at a time\<close>

text \<open>
  \<^verbatim>\<open>async.mapLimit\<close> and \<^verbatim>\<open>async.eachLimit\<close> start the iteratee on the
  items in list order, keep the results in the order of the items and hand the first
  error to the final callback. The model runs the items one after the other; the limit
  is carried as the code passes it and does not change a result. For \<^verbatim>\<open>lib.js\<close>
  this loses nothing: neither iteratee, as written, ever calls back with an error, a
  skipped task calls back before the next one starts, and the exception of any entry is
  the same value.
\<close>

fun mapLimit :: "'a list \<Rightarrow> nat \<Rightarrow> ('a \<Rightarrow> 'b outcome) \<Rightarrow> 'b list outcome" where
  "mapLimit [] limit iteratee = Done_ok []"
| "mapLimit (x # xs) limit iteratee =
     (case iteratee x of
        Done_ok v \<Rightarrow>
          (case mapLimit xs limit iteratee of
             Done_ok vs \<Rightarrow> Done_ok (v # vs)
           | Done_err e \<Rightarrow> Done_err e
           | Uncaught e \<Rightarrow> Uncaught e
           | No_callback \<Rightarrow> No_callback)
      | Done_err e \<Rightarrow> Done_err e
      | Uncaught e \<Rightarrow> Uncaught e
      | No_callback \<Rightarrow> No_callback)"

fun eachLimit :: "'a list \<Rightarrow> nat \<Rightarrow> ('a \<Rightarrow> unit effect) \<Rightarrow> unit effect" where
  "eachLimit [] limit iteratee = ([], Done_ok ())"
| "eachLimit (x # xs) limit iteratee =
     (case iteratee x of
        (calls, Done_ok u) \<Rightarrow>
          (case eachLimit xs limit iteratee of (calls', r) \<Rightarrow> (calls @ calls', r))
      | (calls, Done_err e) \<Rightarrow> (calls, Done_err e)
      | (calls, Uncaught e) \<Rightarrow> (calls, Uncaught e)
      | (calls, No_callback) \<Rightarrow> (calls, No_callback))"

section \<open>lib.js\<close>

text \<open>
  The functions are modelled as they are written. The object literal of
  \<^verbatim>\<open>module.exports\<close> at the end of the file lacks two commas; loading the module
  is not part of the model.
\<close>

definition MAX_PARALLEL :: nat where
  "MAX_PARALLEL = 25"

record task =
  type :: string
  localPath :: string
  remotePath :: string

text \<open>
  \<^verbatim>\<open>makeLocalTask\<close>: the callback of \<^verbatim>\<open>fs.lstat\<close> does not look at
  \<^verbatim>\<open>err\<close>. When the read fails \<^verbatim>\<open>stat\<close> is \<^verbatim>\<open>undefined\<close> and
  \<^verbatim>\<open>stat.isFile()\<close> throws. An entry that is not a file is translated
  to \<^verbatim>\<open>undefined\<close>, here \<open>None\<close>.
\<close>

definition makeLocalTask :: "modules \<Rightarrow> string \<Rightarrow> string \<Rightarrow> task option outcome" where
  "makeLocalTask M rootPath localPath' =
     (case lstat (fs M) localPath' of
        Inl err \<Rightarrow> Uncaught (TypeError ''isFile'')
      | Inr stat \<Rightarrow>
          if \<not> isFile stat then Done_ok None
          else Done_ok (Some \<lparr> type = ''file'',
                                localPath = localPath',
                                remotePath = relative (path M) rootPath localPath' \<rparr>))"

text \<open>
  \<^verbatim>\<open>buildLocalExecutionPlan\<close>: the search pattern may be absent
  (\<open>None\<close>); \<^verbatim>\<open>searchPattern || "**"\<close> also replaces the empty string.
\<close>

definition or_default :: "string option \<Rightarrow> string \<Rightarrow> string" where
  "or_default v d = (case v of None \<Rightarrow> d | Some s \<Rightarrow> if s = [] then d else s)"

definition buildLocalExecutionPlan ::
  "modules \<Rightarrow> string \<Rightarrow> string option \<Rightarrow> task option list outcome" where
  "buildLocalExecutionPlan M rootPath searchPattern =
     (let globPath = format (path M)
            \<lparr> dir = rootPath, base = or_default searchPattern ''**'' \<rparr>
      in case glob M globPath of
           Inl err \<Rightarrow> Done_err err
         | Inr paths \<Rightarrow> mapLimit paths MAX_PARALLEL (makeLocalTask M rootPath))"

text \<open>
  \<^verbatim>\<open>executeTaskOnS3\<close>. Line 56 is \<^verbatim>\<open>var mime = mime.lookup(task.localPath)\<close>:
  the declaration makes \<^verbatim>\<open>mime\<close> a variable of the function, which hides the
  module and holds \<^verbatim>\<open>undefined\<close> when its right-hand side is evaluated. The
  body is written once, over the value that the name \<^verbatim>\<open>mime\<close> has at that
  point; the function of the source is the body at \<open>None\<close>.
\<close>

definition executeTaskOnS3_body ::
  "mime_module option \<Rightarrow> s3_client \<Rightarrow> string \<Rightarrow> task option \<Rightarrow> unit effect" where
  "executeTaskOnS3_body mime_here s3 bucketName task' =
     (case task' of
        None \<Rightarrow> ([], Done_ok ())
      | Some t \<Rightarrow>
          if remotePath t = [] then ([], Done_ok ())
          else (case mime_here of
                  None \<Rightarrow> ([], Uncaught (TypeError ''lookup''))
                | Some m \<Rightarrow>
                    (let params = \<lparr> Bucket = bucketName,
                                     Key = remotePath t,
                                     ACL = ''public-read'',
                                     ContentType = lookup m (localPath t),
                                     Body = createReadStream (localPath t) \<rparr>
                     in case upload s3 params of
                          Some err \<Rightarrow> ([Upload params], Done_err err)
                        | None \<Rightarrow> ([Upload params], Done_ok ()))))"

definition executeTaskOnS3 :: "s3_client \<Rightarrow> string \<Rightarrow> task option \<Rightarrow> unit effect" where
  "executeTaskOnS3 s3 bucketName task' = executeTaskOnS3_body None s3 bucketName task'"

definition createAnonReadStatement :: "string \<Rightarrow> json" where
  "createAnonReadStatement bucketName =
     JObject
       [(''Version'', JString ''2012-10-17''),
        (''Statement'', JArray
           [JObject
              [(''Sid'', JString ''AddPerm''),
               (''Effect'', JString ''Allow''),
               (''Principal'', JString ''*''),
               (''Action'', JArray [JString ''s3:GetObject'']),
               (''Resource'', JArray
                  [JString (''arn:aws:s3:::'' @ bucketName @ ''/*''),
                   JString (''arn:aws:s3:::'' @ bucketName @ ''/**/*'')])]])]"

definition createAnonReadPolicy :: "modules \<Rightarrow> string \<Rightarrow> policy_params" where
  "createAnonReadPolicy M bucketName =
     \<lparr> policy_Bucket = bucketName,
       Policy = JSON_stringify M (createAnonReadStatement bucketName) \<rparr>"

definition configureWebsiteBucket :: "modules \<Rightarrow> s3_client \<Rightarrow> string \<Rightarrow> unit effect" where
  "configureWebsiteBucket M s3 bucketName =
     (let params = createAnonReadPolicy M bucketName
      in case putBucketPolicy s3 params of
           Some err \<Rightarrow> ([PutBucketPolicy params], Done_err err)
         | None \<Rightarrow> ([PutBucketPolicy params], Done_ok ()))"

definition uploadDirToS3 ::
  "modules \<Rightarrow> string \<Rightarrow> string option \<Rightarrow> s3_client \<Rightarrow> string \<Rightarrow> unit effect" where
  "uploadDirToS3 M rootPath dirSearchPattern s3 bucketName =
     (case buildLocalExecutionPlan M rootPath dirSearchPattern of
        Done_err err \<Rightarrow> ([], Done_err err)
      | Uncaught e \<Rightarrow> ([], Uncaught e)
      | No_callback \<Rightarrow> ([], No_callback)
      | Done_ok tasks \<Rightarrow> eachLimit tasks MAX_PARALLEL (executeTaskOnS3 s3 bucketName))"

text \<open>
  \<^verbatim>\<open>s3WebsiteFromDirectory\<close>: the innermost callback returns \<^verbatim>\<open>done(err)\<close>
  on an error and otherwise only writes a debug line.
\<close>

definition s3WebsiteFromDirectory ::
  "modules \<Rightarrow> string \<Rightarrow> string option \<Rightarrow> s3_client \<Rightarrow> string \<Rightarrow> unit effect" where
  "s3WebsiteFromDirectory M rootPath dirSearchPattern s3 bucketName =
     (case configureWebsiteBucket M s3 bucketName of
        (calls, Done_err err) \<Rightarrow> (calls, Done_err err)
      | (calls, Uncaught e) \<Rightarrow> (calls, Uncaught e)
      | (calls, No_callback) \<Rightarrow> (calls, No_callback)
      | (calls, Done_ok u) \<Rightarrow>
          (case uploadDirToS3 M rootPath dirSearchPattern s3 bucketName of
             (calls', Done_err err) \<Rightarrow> (calls @ calls', Done_err err)
           | (calls', Uncaught e) \<Rightarrow> (calls @ calls', Uncaught e)
           | (calls', No_callback) \<Rightarrow> (calls @ calls', No_callback)
           | (calls', Done_ok u') \<Rightarrow> (calls @ calls', No_callback)))"

section \<open>What the statements below speak of\<close>

text \<open>
  An entry is a regular file when \<^verbatim>\<open>fs.lstat\<close> succeeds on it and
  \<^verbatim>\<open>isFile()\<close> holds of the result.
\<close>

definition is_regular_file :: "modules \<Rightarrow> string \<Rightarrow> bool" where
  "is_regular_file M p = (case lstat (fs M) p of Inl err \<Rightarrow> False | Inr stat \<Rightarrow> isFile stat)"

subsection \<open>A site to run the code on\<close>

text \<open>
  The directory \<^verbatim>\<open>/site\<close> holds \<^verbatim>\<open>index.html\<close>, \<^verbatim>\<open>css/style.css\<close>
  and the empty directory \<^verbatim>\<open>img\<close>; \<^verbatim>\<open>gone.tmp\<close> is matched by the walk
  and deleted before it is read. \<open>stringify\<close> renders strings that need no escape.
  \<open>win_site\<close> is the same style sheet on a Windows host.
\<close>

definition quoted :: "string \<Rightarrow> string" where
  "quoted s = CHR 0x22 # s @ [CHR 0x22]"

fun stringify :: "json \<Rightarrow> string" where
  "stringify (JString s) = quoted s"
| "stringify (JArray vs) = ''['' @ join CHR '','' (map stringify vs) @ '']''"
| "stringify (JObject kvs) =
     ''{'' @ join CHR '','' (map (\<lambda>kv. quoted (fst kv) @ '':'' @ stringify (snd kv)) kvs) @ ''}''"

definition site_lstat :: "string \<Rightarrow> error + stats" where
  "site_lstat p =
     (if p = ''/site/index.html'' \<or> p = ''/site/css/style.css'' then Inr \<lparr> isFile = True \<rparr>
      else if p = ''/site/css'' \<or> p = ''/site/img'' then Inr \<lparr> isFile = False \<rparr>
      else Inl (Failure ''ENOENT''))"

definition site_matches :: "string list" where
  "site_matches = [''/site/css'', ''/site/css/style.css'', ''/site/img'', ''/site/index.html'']"

definition site_glob :: "string \<Rightarrow> error + string list" where
  "site_glob pattern =
     (if pattern = ''/site/**'' then Inr site_matches
      else if pattern = ''/site/img*'' then Inr [''/site/img'']
      else if pattern = ''/site/*.tmp'' then Inr [''/site/gone.tmp'']
      else Inr [])"

definition octet_stream :: mime_module where
  "octet_stream = \<lparr> lookup = (\<lambda>p. ''application/octet-stream'') \<rparr>"

definition site :: modules where
  "site = \<lparr> fs = \<lparr> lstat = site_lstat \<rparr>,
            path = posix,
            glob = site_glob,
            mime = octet_stream,
            JSON_stringify = stringify \<rparr>"

definition win_root :: string where
  "win_root = ''C:'' @ backslash # ''site''"

definition win_file :: string where
  "win_file = win_root @ backslash # ''css'' @ backslash # ''style.css''"

definition win_site :: modules where
  "win_site = \<lparr> fs = \<lparr> lstat = (\<lambda>p. if p = win_file then Inr \<lparr> isFile = True \<rparr>
                                      else Inl (Failure ''ENOENT'')) \<rparr>,
                path = win32,
                glob = (\<lambda>pattern. Inr [win_file]),
                mime = octet_stream,
                JSON_stringify = stringify \<rparr>"

definition s3_accepting :: s3_client where
  "s3_accepting = \<lparr> upload = (\<lambda>params. None), putBucketPolicy = (\<lambda>params. None) \<rparr>"

definition s3_rejecting :: s3_client where
  "s3_rejecting = \<lparr> upload = (\<lambda>params. Some (Failure ''AccessDenied'')),
                    putBucketPolicy = (\<lambda>params. None) \<rparr>"

definition index_task :: task where
  "index_task = \<lparr> type = ''file'', localPath = ''/site/index.html'', remotePath = ''index.html'' \<rparr>"

definition style_task :: task where
  "style_task = \<lparr> type = ''file'', localPath = ''/site/css/style.css'',
                   remotePath = ''css/style.css'' \<rparr>"

definition root_task :: task where
  "root_task = \<lparr> type = ''file'', localPath = ''/site'', remotePath = [] \<rparr>"

section \<open>Facts about the parts\<close>

lemma mapLimit_all_ok:
  "(\<And>x. x \<in> set xs \<Longrightarrow> f x = Done_ok (g x)) \<Longrightarrow> mapLimit xs n f = Done_ok (map g xs)"
  by (induction xs) simp_all

lemma mapLimit_uncaught:
  assumes "x \<in> set xs"
    and "f x = Uncaught e"
    and "\<And>y. y \<in> set xs \<Longrightarrow> (\<exists>v. f y = Done_ok v) \<or> f y = Uncaught e"
  shows "mapLimit xs n f = Uncaught e"
  using assms
proof (induction xs)
  case Nil
  then show ?case by simp
next
  case (Cons y ys)
  show ?case
  proof (cases "f y")
    case (Done_ok v)
    with Cons.prems have "x \<in> set ys" by auto
    with Cons have "mapLimit ys n f = Uncaught e" by simp
    with Done_ok show ?thesis by simp
  next
    case (Done_err e')
    with Cons.prems(3)[of y] show ?thesis by simp
  next
    case (Uncaught e')
    with Cons.prems(3)[of y] show ?thesis by simp
  next
    case No_callback
    with Cons.prems(3)[of y] show ?thesis by simp
  qed
qed

lemma makeLocalTask_stat_ok:
  "lstat (fs M) p = Inr stat \<Longrightarrow>
   makeLocalTask M rootPath p =
     Done_ok (if is_regular_file M p
              then Some \<lparr> type = ''file'', localPath = p,
                          remotePath = relative (path M) rootPath p \<rparr>
              else None)"
  by (simp add: makeLocalTask_def is_regular_file_def)

lemma makeLocalTask_stat_failed:
  "lstat (fs M) p = Inl err \<Longrightarrow> makeLocalTask M rootPath p = Uncaught (TypeError ''isFile'')"
  by (simp add: makeLocalTask_def)

lemma site_pattern:
  "format (path site) \<lparr> dir = ''/site'', base = b \<rparr> = ''/site/'' @ b"
  by (simp add: site_def posix_def format_with_def)

lemma site_lstat_simps:
  "lstat (fs site) ''/site/css'' = Inr \<lparr> isFile = False \<rparr>"
  "lstat (fs site) ''/site/img'' = Inr \<lparr> isFile = False \<rparr>"
  "lstat (fs site) ''/site/css/style.css'' = Inr \<lparr> isFile = True \<rparr>"
  "lstat (fs site) ''/site/index.html'' = Inr \<lparr> isFile = True \<rparr>"
  "lstat (fs site) ''/site/gone.tmp'' = Inl (Failure ''ENOENT'')"
  by (simp_all add: site_def site_lstat_def)

lemma site_glob_simps:
  "glob site ''/site/**'' = Inr site_matches"
  "glob site ''/site/img*'' = Inr [''/site/img'']"
  "glob site ''/site/*.tmp'' = Inr [''/site/gone.tmp'']"
  by (simp_all add: site_def site_glob_def)

lemma site_relative_simps:
  "relative (path site) ''/site'' ''/site/index.html'' = ''index.html''"
  "relative (path site) ''/site'' ''/site/css/style.css'' = ''css/style.css''"
  by (simp_all add: site_def posix_def relative_parts_def)

lemma site_plan:
  "buildLocalExecutionPlan site ''/site'' None = Done_ok [None, Some style_task, None, Some index_task]"
  by (simp add: buildLocalExecutionPlan_def site_pattern site_glob_simps or_default_def
      site_matches_def makeLocalTask_def site_lstat_simps site_relative_simps
      style_task_def index_task_def)

lemma site_plan_img:
  "buildLocalExecutionPlan site ''/site'' (Some ''img*'') = Done_ok [None]"
  by (simp add: buildLocalExecutionPlan_def site_pattern site_glob_simps or_default_def
      makeLocalTask_def site_lstat_simps)

lemma site_plan_tmp:
  "buildLocalExecutionPlan site ''/site'' (Some ''*.tmp'') = Uncaught (TypeError ''isFile'')"
  by (simp add: buildLocalExecutionPlan_def site_pattern site_glob_simps or_default_def
      makeLocalTask_def site_lstat_simps)


section \<open>The execution plan\<close>

lemma buildLocalExecutionPlan_stat_failed:
  assumes "glob M (format (path M) \<lparr> dir = rootPath, base = or_default searchPattern ''**'' \<rparr>)
             = Inr paths"
    and "p \<in> set paths"
    and "lstat (fs M) p = Inl err"
  shows "buildLocalExecutionPlan M rootPath searchPattern = Uncaught (TypeError ''isFile'')"
proof -
  have "mapLimit paths MAX_PARALLEL (makeLocalTask M rootPath) = Uncaught (TypeError ''isFile'')"
  proof (rule mapLimit_uncaught [OF assms(2)])
    show "makeLocalTask M rootPath p = Uncaught (TypeError ''isFile'')"
      using assms(3) by (rule makeLocalTask_stat_failed)
  next
    fix q
    show "(\<exists>v. makeLocalTask M rootPath q = Done_ok v)
          \<or> makeLocalTask M rootPath q = Uncaught (TypeError ''isFile'')"
      by (simp add: makeLocalTask_def split: sum.splits)
  qed
  with assms(1) show ?thesis
    by (simp add: buildLocalExecutionPlan_def)
qed

text \<open>
  Claim C1, as the code has it. When the walk returns a list of paths and
  \<^verbatim>\<open>lstat\<close> succeeds on each of them, \<^verbatim>\<open>buildLocalExecutionPlan\<close> calls
  back with one entry per matched path, in the order of the matches: the file task of the
  path when it is a regular file, \<^verbatim>\<open>undefined\<close> otherwise. The placeholders stay
  in the plan, so the plan is as long as the list of matches, and the entries that are
  tasks are as many as the regular files.
\<close>

theorem plan_entry_per_match:
  assumes "glob M (format (path M) \<lparr> dir = rootPath, base = or_default searchPattern ''**'' \<rparr>)
             = Inr paths"
    and "\<forall>p\<in>set paths. \<exists>stat. lstat (fs M) p = Inr stat"
  shows "\<exists>plan. buildLocalExecutionPlan M rootPath searchPattern = Done_ok plan
           \<and> plan = map (\<lambda>p. if is_regular_file M p
                               then Some \<lparr> type = ''file'', localPath = p,
                                           remotePath = relative (path M) rootPath p \<rparr>
                               else None) paths
           \<and> length plan = length paths
           \<and> (\<forall>i<length paths. (plan ! i \<noteq> None) = is_regular_file M (paths ! i))
           \<and> length (filter (\<lambda>entry. entry \<noteq> None) plan)
               = length (filter (is_regular_file M) paths)"
proof -
  let ?g = "\<lambda>p. if is_regular_file M p
                 then Some \<lparr> type = ''file'', localPath = p,
                             remotePath = relative (path M) rootPath p \<rparr>
                 else None"
  have "mapLimit paths MAX_PARALLEL (makeLocalTask M rootPath) = Done_ok (map ?g paths)"
  proof (rule mapLimit_all_ok)
    fix p assume "p \<in> set paths"
    with assms(2) obtain stat where "lstat (fs M) p = Inr stat" by blast
    then show "makeLocalTask M rootPath p = Done_ok (?g p)"
      by (rule makeLocalTask_stat_ok)
  qed
  with assms(1) have run: "buildLocalExecutionPlan M rootPath searchPattern = Done_ok (map ?g paths)"
    by (simp add: buildLocalExecutionPlan_def)
  have count: "length (filter (\<lambda>entry. entry \<noteq> None) (map ?g paths))
                 = length (filter (is_regular_file M) paths)"
    by (induction paths) simp_all
  from run count show ?thesis by simp
qed

text \<open>
  On \<^verbatim>\<open>/site\<close> with the default pattern both hypotheses hold: four matches,
  two of them files.
\<close>

theorem plan_entry_per_match_witness:
  "glob site (format (path site) \<lparr> dir = ''/site'', base = or_default None ''**'' \<rparr>)
     = Inr site_matches
   \<and> list_all (\<lambda>p. \<exists>stat. lstat (fs site) p = Inr stat) site_matches
   \<and> (\<exists>plan. buildLocalExecutionPlan site ''/site'' None = Done_ok plan
         \<and> length plan = 4
         \<and> length (filter (\<lambda>entry. entry \<noteq> None) plan) = 2)"
proof -
  have g: "glob site (format (path site) \<lparr> dir = ''/site'', base = or_default None ''**'' \<rparr>)
             = Inr site_matches"
    by (simp add: site_pattern or_default_def site_glob_simps)
  have s: "\<forall>p\<in>set site_matches. \<exists>stat. lstat (fs site) p = Inr stat"
    by (simp add: site_matches_def site_lstat_simps)
  have n: "length site_matches = 4"
    by (simp add: site_matches_def)
  have r: "length (filter (is_regular_file site) site_matches) = 2"
    by (simp add: site_matches_def is_regular_file_def site_lstat_simps)
  from plan_entry_per_match [OF g s] n r g s show ?thesis
    by (auto simp: list_all_iff)
qed

text \<open>
  Claim C1 as written fails there: the two directories are not omitted, and the plan
  has four entries for two regular files.
\<close>

theorem plan_length_counterexample:
  "buildLocalExecutionPlan site ''/site'' None
     = Done_ok [None, Some style_task, None, Some index_task]
   \<and> filter (is_regular_file site) site_matches = [''/site/css/style.css'', ''/site/index.html'']
   \<and> None \<in> set [None, Some style_task, None, Some index_task]
   \<and> length [None, Some style_task, None, Some index_task]
       \<noteq> length (filter (is_regular_file site) site_matches)"
  by (simp add: site_plan site_matches_def is_regular_file_def site_lstat_simps)

text \<open>
  Claim C6 at \<^verbatim>\<open>/site/gone.tmp\<close>, whose \<^verbatim>\<open>lstat\<close> fails with
  \<^verbatim>\<open>ENOENT\<close>: the callback reads \<^verbatim>\<open>isFile\<close> of \<^verbatim>\<open>undefined\<close>, the
  exception leaves the event loop, and \<^verbatim>\<open>done\<close> never receives the error of the
  failed read.
\<close>

theorem stat_failure_is_thrown:
  "glob site ''/site/*.tmp'' = Inr [''/site/gone.tmp'']
   \<and> lstat (fs site) ''/site/gone.tmp'' = Inl (Failure ''ENOENT'')
   \<and> buildLocalExecutionPlan site ''/site'' (Some ''*.tmp'') = Uncaught (TypeError ''isFile'')
   \<and> buildLocalExecutionPlan site ''/site'' (Some ''*.tmp'') \<noteq> Done_err (Failure ''ENOENT'')"
  by (simp add: site_plan_tmp site_glob_simps site_lstat_simps)

section \<open>The remote key\<close>

lemma win_relative:
  "relative (path win_site) win_root win_file = ''css'' @ backslash # ''style.css''"
  by (simp add: win_site_def win32_def relative_parts_def win_root_def win_file_def backslash_def)

lemma win_makeLocalTask:
  "makeLocalTask win_site win_root win_file
     = Done_ok (Some \<lparr> type = ''file'', localPath = win_file,
                         remotePath = ''css'' @ backslash # ''style.css'' \<rparr>)"
  unfolding makeLocalTask_def win_relative
  by (simp add: win_site_def)

lemma site_makeLocalTask:
  "makeLocalTask site ''/site'' ''/site/css/style.css'' = Done_ok (Some style_task)"
  by (simp add: makeLocalTask_def site_lstat_simps site_relative_simps style_task_def)

text \<open>
  Claim C9, as the code has it. The remote path of a task is what the host's
  \<^verbatim>\<open>path.relative\<close> returns for the root and the local path, so its components
  are joined with the separator of the host: the forward slash on POSIX, the backslash
  on Windows.
\<close>

theorem remotePath_is_host_relative:
  assumes "makeLocalTask M rootPath p = Done_ok (Some t)"
  shows "localPath t = p
         \<and> remotePath t = relative (path M) rootPath p
         \<and> (path M = posix \<longrightarrow>
              remotePath t = join CHR ''/'' (relative_parts (\<lambda>c. c = CHR ''/'') rootPath p))
         \<and> (path M = win32 \<longrightarrow>
              remotePath t = join backslash
                (relative_parts (\<lambda>c. c = CHR ''/'' \<or> c = backslash) rootPath p))"
proof -
  from assms have "t = \<lparr> type = ''file'', localPath = p,
                          remotePath = relative (path M) rootPath p \<rparr>"
    by (auto simp: makeLocalTask_def split: sum.splits if_splits)
  then show ?thesis
    by (auto simp: posix_def win32_def)
qed

text \<open>
  The style sheet on both hosts: \<^verbatim>\<open>css/style.css\<close> on POSIX, and the same two
  components around a backslash on Windows.
\<close>

theorem remotePath_is_host_relative_witness:
  "makeLocalTask site ''/site'' ''/site/css/style.css'' = Done_ok (Some style_task)
   \<and> path site = posix
   \<and> remotePath style_task = ''css/style.css''
   \<and> remotePath style_task
       = join CHR ''/'' (relative_parts (\<lambda>c. c = CHR ''/'') ''/site'' ''/site/css/style.css'')
   \<and> makeLocalTask win_site win_root win_file
       = Done_ok (Some \<lparr> type = ''file'', localPath = win_file,
                           remotePath = ''css'' @ backslash # ''style.css'' \<rparr>)
   \<and> path win_site = win32
   \<and> ''css'' @ backslash # ''style.css''
       = join backslash (relative_parts (\<lambda>c. c = CHR ''/'' \<or> c = backslash) win_root win_file)"
proof -
  have p: "path site = posix" by (simp add: site_def)
  have w: "path win_site = win32" by (simp add: win_site_def)
  have r: "remotePath style_task = ''css/style.css''" by (simp add: style_task_def)
  have a: "remotePath style_task
             = join CHR ''/'' (relative_parts (\<lambda>c. c = CHR ''/'') ''/site'' ''/site/css/style.css'')"
    by (rule remotePath_is_host_relative
          [OF site_makeLocalTask, THEN conjunct2, THEN conjunct2, THEN conjunct1, rule_format, OF p])
  have b: "''css'' @ backslash # ''style.css''
             = join backslash (relative_parts (\<lambda>c. c = CHR ''/'' \<or> c = backslash) win_root win_file)"
    using remotePath_is_host_relative
          [OF win_makeLocalTask, THEN conjunct2, THEN conjunct2, THEN conjunct2, rule_format, OF w]
    by simp
  from a b p w r site_makeLocalTask win_makeLocalTask show ?thesis
    by (intro conjI)
qed

text \<open>
  Claim C9 as written fails on the Windows host: the path relative to the root with
  forward slashes is \<^verbatim>\<open>css/style.css\<close>, and the task carries a backslash.
\<close>

theorem remotePath_backslash_counterexample:
  "makeLocalTask win_site win_root win_file
     = Done_ok (Some \<lparr> type = ''file'', localPath = win_file,
                         remotePath = ''css'' @ backslash # ''style.css'' \<rparr>)
   \<and> join CHR ''/'' (relative_parts (\<lambda>c. c = CHR ''/'' \<or> c = backslash) win_root win_file)
       = ''css/style.css''
   \<and> ''css'' @ backslash # ''style.css'' \<noteq> ''css/style.css''
   \<and> backslash \<in> set (''css'' @ backslash # ''style.css'')"
  by (simp add: win_makeLocalTask)
     (simp add: relative_parts_def win_root_def win_file_def backslash_def)

section \<open>The executor\<close>

lemma executeTaskOnS3_placeholder:
  "executeTaskOnS3_body m s3 b None = ([], Done_ok ())"
  by (simp add: executeTaskOnS3_body_def)

lemma executeTaskOnS3_throws:
  "remotePath t \<noteq> [] \<Longrightarrow>
   executeTaskOnS3 s3 b (Some t) = ([], Uncaught (TypeError ''lookup''))"
  by (simp add: executeTaskOnS3_def executeTaskOnS3_body_def)

lemma executeTaskOnS3_no_calls:
  "fst (executeTaskOnS3 s3 b task') = []"
  by (simp add: executeTaskOnS3_def executeTaskOnS3_body_def split: option.splits)

lemma eachLimit_all_skipped:
  "(\<And>x. x \<in> set xs \<Longrightarrow> f x = ([], Done_ok ())) \<Longrightarrow> eachLimit xs n f = ([], Done_ok ())"
  by (induction xs) (simp_all split: prod.splits)

lemma eachLimit_without_skipped:
  "(\<And>x. x \<in> set xs \<Longrightarrow> \<not> P x \<Longrightarrow> f x = ([], Done_ok ())) \<Longrightarrow>
   eachLimit (filter P xs) n f = eachLimit xs n f"
proof (induction xs)
  case Nil
  then show ?case by simp
next
  case (Cons x xs)
  then have ih: "eachLimit (filter P xs) n f = eachLimit xs n f" by simp
  show ?case
  proof (cases "P x")
    case True
    with ih show ?thesis by simp
  next
    case False
    with Cons.prems have "f x = ([], Done_ok ())" by simp
    with False ih show ?thesis by (simp split: prod.splits)
  qed
qed

lemma index_upload:
  "executeTaskOnS3_body (Some octet_stream) s3_accepting ''my-bucket'' (Some index_task)
     = ([Upload \<lparr> Bucket = ''my-bucket'', Key = ''index.html'', ACL = ''public-read'',
                   ContentType = ''application/octet-stream'',
                   Body = ReadStream ''/site/index.html'' \<rparr>], Done_ok ())"
  by (simp add: executeTaskOnS3_body_def index_task_def octet_stream_def s3_accepting_def
      createReadStream_def)

lemma eachLimit_executeTaskOnS3_no_calls:
  "fst (eachLimit plan n (executeTaskOnS3 s3 b)) = []"
proof (induction plan)
  case Nil
  then show ?case by simp
next
  case (Cons entry plan)
  have "fst (executeTaskOnS3 s3 b entry) = []" by (rule executeTaskOnS3_no_calls)
  with Cons show ?case
    by (cases "executeTaskOnS3 s3 b entry"; cases "eachLimit plan n (executeTaskOnS3 s3 b)")
       (simp split: outcome.splits)
qed

lemma uploadDirToS3_no_calls:
  "fst (uploadDirToS3 M rootPath sp s3 b) = []"
  by (simp add: uploadDirToS3_def eachLimit_executeTaskOnS3_no_calls split: outcome.splits)

text \<open>
  Claim C7. A task whose remote path is the empty string is completed at once, with no
  error and no remote call; this holds of \<^verbatim>\<open>executeTaskOnS3\<close> and of its body
  whatever the name \<^verbatim>\<open>mime\<close> is bound to. Hence a task for which the body issues
  an upload has a remote path that is not empty, and that path is the key of the upload.
\<close>

theorem root_entry_is_never_written:
  "(remotePath t = [] \<longrightarrow>
      executeTaskOnS3 s3 b (Some t) = ([], Done_ok ())
      \<and> executeTaskOnS3_body m s3 b (Some t) = ([], Done_ok ()))
   \<and> (Upload params \<in> set (fst (executeTaskOnS3_body m s3 b task')) \<longrightarrow>
        (\<exists>t'. task' = Some t' \<and> remotePath t' \<noteq> [] \<and> Key params = remotePath t'))"
  by (auto simp: executeTaskOnS3_def executeTaskOnS3_body_def Let_def
           split: option.splits if_splits)

text \<open>
  The root entry, with the empty remote path, is skipped; the upload that the body issues
  for \<^verbatim>\<open>index.html\<close> when \<^verbatim>\<open>mime\<close> is bound to a module carries the key
  \<^verbatim>\<open>index.html\<close>.
\<close>

theorem root_entry_is_never_written_witness:
  "remotePath root_task = []
   \<and> executeTaskOnS3 s3_accepting ''my-bucket'' (Some root_task) = ([], Done_ok ())
   \<and> executeTaskOnS3_body (Some octet_stream) s3_accepting ''my-bucket'' (Some root_task)
       = ([], Done_ok ())
   \<and> fst (executeTaskOnS3_body (Some octet_stream) s3_accepting ''my-bucket'' (Some index_task))
       = [Upload \<lparr> Bucket = ''my-bucket'', Key = ''index.html'', ACL = ''public-read'',
                    ContentType = ''application/octet-stream'',
                    Body = ReadStream ''/site/index.html'' \<rparr>]
   \<and> remotePath index_task \<noteq> []"
proof -
  have e: "remotePath root_task = []" by (simp add: root_task_def)
  let ?p = "\<lparr> Bucket = ''my-bucket'', Key = ''index.html'', ACL = ''public-read'',
               ContentType = ''application/octet-stream'',
               Body = ReadStream ''/site/index.html'' \<rparr>"
  have u: "Upload ?p \<in> set (fst (executeTaskOnS3_body (Some octet_stream) s3_accepting
                                   ''my-bucket'' (Some index_task)))"
    by (simp add: index_upload)
  from root_entry_is_never_written
         [of root_task s3_accepting "''my-bucket''" "Some octet_stream" ?p "Some root_task"] e
  have a: "executeTaskOnS3 s3_accepting ''my-bucket'' (Some root_task) = ([], Done_ok ())
           \<and> executeTaskOnS3_body (Some octet_stream) s3_accepting ''my-bucket'' (Some root_task)
               = ([], Done_ok ())"
    by blast
  from root_entry_is_never_written
         [of root_task s3_accepting "''my-bucket''" "Some octet_stream" ?p "Some index_task"] u
  have b: "remotePath index_task \<noteq> []"
    by blast
  from e a b show ?thesis by (simp add: index_upload)
qed

text \<open>
  Claim C10. On \<^verbatim>\<open>undefined\<close> in place of a task \<^verbatim>\<open>executeTaskOnS3\<close> calls
  back with no error and makes no remote call. So the placeholders of a plan are not seen
  by a run: the run of a plan is the run of the plan without them, and a plan of
  placeholders only ends well, with no remote call.
\<close>

theorem placeholder_is_skipped:
  "executeTaskOnS3 s3 b None = ([], Done_ok ())
   \<and> eachLimit (filter (\<lambda>entry. entry \<noteq> None) plan) n (executeTaskOnS3 s3 b)
       = eachLimit plan n (executeTaskOnS3 s3 b)
   \<and> eachLimit (replicate k None) n (executeTaskOnS3 s3 b) = ([], Done_ok ())"
proof (intro conjI)
  show skip: "executeTaskOnS3 s3 b None = ([], Done_ok ())"
    by (simp add: executeTaskOnS3_def executeTaskOnS3_placeholder)
  show "eachLimit (filter (\<lambda>entry. entry \<noteq> None) plan) n (executeTaskOnS3 s3 b)
          = eachLimit plan n (executeTaskOnS3 s3 b)"
    by (rule eachLimit_without_skipped) (simp add: skip)
  show "eachLimit (replicate k None) n (executeTaskOnS3 s3 b) = ([], Done_ok ())"
    by (rule eachLimit_all_skipped) (simp add: skip)
qed

text \<open>
  The pattern \<^verbatim>\<open>img*\<close> matches the empty directory only; the plan is one
  placeholder and the upload ends well, even on a bucket that rejects every write.
\<close>

theorem placeholder_is_skipped_witness:
  "buildLocalExecutionPlan site ''/site'' (Some ''img*'') = Done_ok [None]
   \<and> uploadDirToS3 site ''/site'' (Some ''img*'') s3_rejecting ''my-bucket'' = ([], Done_ok ())"
  using placeholder_is_skipped [of s3_rejecting "''my-bucket''" "[]" MAX_PARALLEL 1]
  by (simp add: uploadDirToS3_def site_plan_img)

text \<open>
  Claim C8 at the task of \<^verbatim>\<open>index.html\<close>, which is not skipped: the local
  \<^verbatim>\<open>mime\<close> is \<^verbatim>\<open>undefined\<close> when \<^verbatim>\<open>mime.lookup\<close> is read, the
  exception is thrown before \<^verbatim>\<open>s3.upload\<close> is reached, and no remote call is
  issued.
\<close>

theorem upload_is_never_issued:
  "remotePath index_task = ''index.html''
   \<and> executeTaskOnS3 s3_accepting ''my-bucket'' (Some index_task)
       = ([], Uncaught (TypeError ''lookup''))"
  by (simp add: executeTaskOnS3_throws index_task_def)

text \<open>
  Claim C3 on \<^verbatim>\<open>/site\<close> and a bucket that rejects every write: the run stops at
  the style sheet with the exception of \<^verbatim>\<open>mime.lookup\<close>. No write is issued, so
  the rejection is never met and \<^verbatim>\<open>done\<close> is not invoked with it.
\<close>

theorem failed_write_is_not_reported:
  "buildLocalExecutionPlan site ''/site'' None
     = Done_ok [None, Some style_task, None, Some index_task]
   \<and> upload s3_rejecting
        \<lparr> Bucket = ''my-bucket'', Key = ''css/style.css'', ACL = ''public-read'',
          ContentType = ''text/css'', Body = ReadStream ''/site/css/style.css'' \<rparr>
       = Some (Failure ''AccessDenied'')
   \<and> uploadDirToS3 site ''/site'' None s3_rejecting ''my-bucket''
       = ([], Uncaught (TypeError ''lookup''))"
  by (simp add: uploadDirToS3_def site_plan executeTaskOnS3_def executeTaskOnS3_body_def
      style_task_def s3_rejecting_def)

section \<open>The bucket policy\<close>

text \<open>
  Claim C5. For every bucket name the policy document has the two fields
  \<^verbatim>\<open>Version\<close> and \<^verbatim>\<open>Statement\<close>, in this order, with the version
  \<^verbatim>\<open>2012-10-17\<close> and one statement; the statement has the fields \<^verbatim>\<open>Sid\<close>,
  \<^verbatim>\<open>Effect\<close>, \<^verbatim>\<open>Principal\<close>, \<^verbatim>\<open>Action\<close> and \<^verbatim>\<open>Resource\<close> with the
  values \<^verbatim>\<open>AddPerm\<close>, \<^verbatim>\<open>Allow\<close>, \<^verbatim>\<open>*\<close>, the one action
  \<^verbatim>\<open>s3:GetObject\<close> and the two resources of the bucket. The publisher sends this
  document, rendered by \<^verbatim>\<open>JSON.stringify\<close>, in one call.
\<close>

theorem policy_document_fields:
  "keys (createAnonReadStatement b) = [''Version'', ''Statement'']
   \<and> property ''Version'' (createAnonReadStatement b) = Some (JString ''2012-10-17'')
   \<and> (\<exists>statement.
         property ''Statement'' (createAnonReadStatement b) = Some (JArray [statement])
         \<and> keys statement = [''Sid'', ''Effect'', ''Principal'', ''Action'', ''Resource'']
         \<and> property ''Sid'' statement = Some (JString ''AddPerm'')
         \<and> property ''Effect'' statement = Some (JString ''Allow'')
         \<and> property ''Principal'' statement = Some (JString ''*'')
         \<and> property ''Action'' statement = Some (JArray [JString ''s3:GetObject''])
         \<and> property ''Resource'' statement
             = Some (JArray [JString (''arn:aws:s3:::'' @ b @ ''/*''),
                             JString (''arn:aws:s3:::'' @ b @ ''/**/*'')]))
   \<and> fst (configureWebsiteBucket M s3 b)
       = [PutBucketPolicy \<lparr> policy_Bucket = b,
                             Policy = JSON_stringify M (createAnonReadStatement b) \<rparr>]"
  by (simp add: createAnonReadStatement_def configureWebsiteBucket_def createAnonReadPolicy_def
      Let_def split: option.splits)

text \<open>
  The document of \<^verbatim>\<open>my-bucket\<close>.
\<close>

theorem policy_document_fields_witness:
  "(\<exists>statement.
      property ''Statement'' (createAnonReadStatement ''my-bucket'') = Some (JArray [statement])
      \<and> property ''Action'' statement = Some (JArray [JString ''s3:GetObject''])
      \<and> property ''Resource'' statement
          = Some (JArray [JString ''arn:aws:s3:::my-bucket/*'',
                          JString ''arn:aws:s3:::my-bucket/**/*'']))"
  using policy_document_fields [of "''my-bucket''" site s3_accepting]
  by auto

section \<open>The orchestrator\<close>

lemma s3WebsiteFromDirectory_never_ok:
  "snd (s3WebsiteFromDirectory M rootPath sp s3 b) \<noteq> Done_ok u"
  by (simp add: s3WebsiteFromDirectory_def split: prod.splits outcome.splits)

lemma s3WebsiteFromDirectory_plan_error:
  assumes "putBucketPolicy s3 (createAnonReadPolicy M b) = None"
    and "glob M (format (path M) \<lparr> dir = rootPath, base = or_default sp ''**'' \<rparr>) = Inl err"
  shows "s3WebsiteFromDirectory M rootPath sp s3 b
           = ([PutBucketPolicy (createAnonReadPolicy M b)], Done_err err)"
  using assms
  by (simp add: s3WebsiteFromDirectory_def configureWebsiteBucket_def uploadDirToS3_def
      buildLocalExecutionPlan_def)

lemma s3WebsiteFromDirectory_policy_error:
  "putBucketPolicy s3 (createAnonReadPolicy M b) = Some err \<Longrightarrow>
   s3WebsiteFromDirectory M rootPath sp s3 b
     = ([PutBucketPolicy (createAnonReadPolicy M b)], Done_err err)"
  by (simp add: s3WebsiteFromDirectory_def configureWebsiteBucket_def)

text \<open>
  Claim C4 on a run in which the three phases succeed (the policy is accepted, the plan
  is one placeholder, the upload has nothing to write): the last callback of
  \<^verbatim>\<open>s3WebsiteFromDirectory\<close> only logs, and \<^verbatim>\<open>done\<close> is not invoked.
\<close>

theorem success_is_never_reported:
  "configureWebsiteBucket site s3_accepting ''my-bucket''
     = ([PutBucketPolicy (createAnonReadPolicy site ''my-bucket'')], Done_ok ())
   \<and> buildLocalExecutionPlan site ''/site'' (Some ''img*'') = Done_ok [None]
   \<and> uploadDirToS3 site ''/site'' (Some ''img*'') s3_accepting ''my-bucket'' = ([], Done_ok ())
   \<and> s3WebsiteFromDirectory site ''/site'' (Some ''img*'') s3_accepting ''my-bucket''
       = ([PutBucketPolicy (createAnonReadPolicy site ''my-bucket'')], No_callback)"
  by (simp add: s3WebsiteFromDirectory_def configureWebsiteBucket_def uploadDirToS3_def
      site_plan_img executeTaskOnS3_def executeTaskOnS3_body_def s3_accepting_def)

end
